theory Spec2Isabelle
  imports Main "HOL-Library.Sublist"
begin

section \<open>SOAP envelope codec (v2alpha/soap/envelope/envelope.go)\<close>

text \<open>
  Go strings and byte slices are \<open>string\<close> (a list of 8-bit characters). Every function of
  the package that mutates through a pointer or an interface value passes the state
  explicitly and returns it updated. The package calls \<open>encoding/xml\<close> of Go's standard
  library; what it calls there (\<open>xml.Header\<close>, \<open>xml.EscapeText\<close>, the encoder, the decoder
  driven by the field tags of the package's types) is modelled as the library defines it.
\<close>

subsection \<open>Data model\<close>

text \<open>\<open>xml.Name\<close>: a namespace URI and a local name.\<close>

record Name =
  Space :: string
  Local :: string

text \<open>\<open>FaultDetail\<close>: the raw inner XML of the \<open>detail\<close> element.\<close>

record FaultDetail =
  Raw :: string

record Fault =
  Code :: string
  String :: string
  Actor :: string
  Detail :: FaultDetail

text \<open>\<open>(*Fault).Error\<close>: the message of a fault.\<close>

definition Fault_Error :: "Fault \<Rightarrow> string" where
  "Fault_Error fe = ''SOAP fault code='' @ Code fe @ '': '' @ String fe"

text \<open>
  Go's \<open>error\<close> interface. The package returns errors of its collaborators unchanged
  (the stream's, \<open>encoding/xml\<close>'s) or a decoded \<open>*Fault\<close>.
\<close>

datatype error =
    StreamError string
  | XMLError string
  | FaultError Fault

text \<open>
  \<open>Action\<close>: \<open>Args\<close> has the interface type \<open>any\<close>; \<open>None\<close> is the nil interface and
  \<open>Some p\<close> a pointer to a payload of the caller's type \<open>'p\<close>.
\<close>

record 'p Action =
  XMLName :: Name
  Args :: "'p option"

subsection \<open>The stream written to\<close>

text \<open>
  \<open>io.Writer\<close>: one call of \<open>w.Write(p)\<close> takes the state of the stream to a new state
  and returns an error or nil. The byte count it also returns is ignored throughout
  the package.
\<close>

type_synonym 's writer = "'s \<Rightarrow> string \<Rightarrow> 's \<times> error option"

text \<open>
  Two streams to run the code on. \<open>buffer\<close> is \<open>bytes.Buffer\<close>: it appends and never
  fails. \<open>recorder f\<close> logs the argument of every call of \<open>Write\<close> in order and fails the
  calls that \<open>f\<close> selects by their index.
\<close>

definition buffer :: "string writer" where
  "buffer s p = (s @ p, None)"

definition recorder :: "(nat \<Rightarrow> error option) \<Rightarrow> (string list) writer" where
  "recorder f log p = (log @ [p], f (length log))"

subsection \<open>Framing constants\<close>

text \<open>
  \<open>xml.Header\<close> of \<open>encoding/xml\<close> is the XML declaration followed by a newline.
\<close>

definition xml_Header :: string where
  \<open>xml_Header = ''<?xml version="1.0" encoding="UTF-8"?>'' @ [CHR 0x0A]\<close>

definition envOpen :: string where
  \<open>envOpen = xml_Header @
     ''<s:Envelope xmlns:s="http://schemas.xmlsoap.org/soap/envelope/" s:encodingStyle="http://schemas.xmlsoap.org/soap/encoding/"><s:Body>''\<close>

definition env1 :: string where
  \<open>env1 = ''<u:''\<close>

definition env2 :: string where
  \<open>env2 = '' xmlns:u="''\<close>

definition env3 :: string where
  \<open>env3 = ''">''\<close>

definition env4 :: string where
  \<open>env4 = ''</u:''\<close>

definition env5 :: string where
  \<open>env5 = ''>''\<close>

definition envClose :: string where
  \<open>envClose = ''</s:Body></s:Envelope>''\<close>

subsection \<open>\<open>xml.EscapeText\<close>\<close>

text \<open>
  \<open>utf8.DecodeRune\<close>: the first rune of a byte slice and its width in bytes; an invalid
  or short encoding is \<open>RuneError\<close> of width 1, the empty slice \<open>RuneError\<close> of width 0.
\<close>

definition RuneError :: nat where
  "RuneError = 0xFFFD"

definition continuation :: "nat \<Rightarrow> nat" where
  "continuation b = b mod 0x40"

fun DecodeRune :: "string \<Rightarrow> nat \<times> nat" where
  "DecodeRune [] = (RuneError, 0)"
| "DecodeRune (c0 # p) =
     (let p0 = (of_char c0 :: nat) in
      if p0 < 0x80 then (p0, 1)
      else if p0 < 0xC2 \<or> 0xF4 < p0 then (RuneError, 1)
      else
        let sz = (if p0 < 0xE0 then 2 else if p0 < 0xF0 then 3 else (4::nat));
            lo = (if p0 = 0xE0 then 0xA0 else if p0 = 0xF0 then 0x90 else (0x80::nat));
            hi = (if p0 = 0xED then 0x9F else if p0 = 0xF4 then 0x8F else (0xBF::nat))
        in
        if length p + 1 < sz then (RuneError, 1)
        else
          let b1 = (of_char (p ! 0) :: nat) in
          if b1 < lo \<or> hi < b1 then (RuneError, 1)
          else if sz \<le> 2 then ((p0 mod 0x20) * 0x40 + continuation b1, 2)
          else
            let b2 = (of_char (p ! 1) :: nat) in
            if b2 < 0x80 \<or> 0xBF < b2 then (RuneError, 1)
            else if sz \<le> 3 then
              ((p0 mod 0x10) * 0x1000 + continuation b1 * 0x40 + continuation b2, 3)
            else
              let b3 = (of_char (p ! 2) :: nat) in
              if b3 < 0x80 \<or> 0xBF < b3 then (RuneError, 1)
              else ((p0 mod 0x08) * 0x40000 + continuation b1 * 0x1000
                      + continuation b2 * 0x40 + continuation b3, 4))"

definition isInCharacterRange :: "nat \<Rightarrow> bool" where
  "isInCharacterRange r \<longleftrightarrow>
     r = 0x09 \<or> r = 0x0A \<or> r = 0x0D
     \<or> (0x20 \<le> r \<and> r \<le> 0xD7FF)
     \<or> (0xE000 \<le> r \<and> r \<le> 0xFFFD)
     \<or> (0x10000 \<le> r \<and> r \<le> 0x10FFFF)"

definition escQuot :: string where \<open>escQuot = ''&#34;''\<close>
definition escApos :: string where \<open>escApos = ''&#39;''\<close>
definition escAmp :: string where \<open>escAmp = ''&amp;''\<close>
definition escLT :: string where \<open>escLT = ''&lt;''\<close>
definition escGT :: string where \<open>escGT = ''&gt;''\<close>
definition escTab :: string where \<open>escTab = ''&#x9;''\<close>
definition escNL :: string where \<open>escNL = ''&#xA;''\<close>
definition escCR :: string where \<open>escCR = ''&#xD;''\<close>
definition escFFFD :: string where \<open>escFFFD = [CHR 0xEF, CHR 0xBF, CHR 0xBD]\<close>

text \<open>
  The \<open>switch\<close> of \<open>escapeText\<close> (with \<open>escapeNewline\<close> true): the replacement of a
  rune, or \<open>None\<close> where the loop continues without writing. In the default case a rune
  outside the character range, or a \<open>RuneError\<close> of width 1, becomes U+FFFD.
\<close>

definition escape_of :: "nat \<Rightarrow> nat \<Rightarrow> string option" where
  "escape_of r width =
     (if r = 0x22 then Some escQuot
      else if r = 0x27 then Some escApos
      else if r = 0x26 then Some escAmp
      else if r = 0x3C then Some escLT
      else if r = 0x3E then Some escGT
      else if r = 0x09 then Some escTab
      else if r = 0x0A then Some escNL
      else if r = 0x0D then Some escCR
      else if isInCharacterRange r then
        (if r = RuneError \<and> width = 1 then Some escFFFD else None)
      else Some escFFFD)"

text \<open>
  The loop of \<open>escapeText\<close>. \<open>pending\<close> is \<open>s[last:i]\<close>, the bytes read and not yet
  written, and the list argument is \<open>s[i:]\<close>. At a rune to escape the pending bytes and
  the replacement are written by two calls; the final call writes \<open>s[last:]\<close>.
  The first error of the stream is returned at once.
\<close>

fun escapeText :: "'s writer \<Rightarrow> 's \<Rightarrow> string \<Rightarrow> string \<Rightarrow> 's \<times> error option" where
  "escapeText w s pending [] = w s pending"
| "escapeText w s pending (c # cs) =
     (let (r, width) = DecodeRune (c # cs) in
      case escape_of r width of
        None \<Rightarrow> escapeText w s (pending @ take width (c # cs)) (drop (width - 1) cs)
      | Some esc \<Rightarrow>
          (case w s pending of
             (s1, Some err) \<Rightarrow> (s1, Some err)
           | (s1, None) \<Rightarrow>
               (case w s1 esc of
                  (s2, Some err) \<Rightarrow> (s2, Some err)
                | (s2, None) \<Rightarrow> escapeText w s2 [] (drop (width - 1) cs))))"

definition EscapeText :: "'s writer \<Rightarrow> 's \<Rightarrow> string \<Rightarrow> 's \<times> error option" where
  "EscapeText w s bs = escapeText w s [] bs"

subsection \<open>The payload encoder\<close>

text \<open>
  \<open>xml.Encoder\<close> marshals the payload into a buffer of its own and flushes the buffer to
  the stream. What it marshals depends on the caller's payload type, so the marshaller
  is a parameter: \<open>marshal p\<close> gives the chunks that reach the stream, in order, and the
  marshalling error if there is one. \<open>Encode\<close> of a nil interface value writes nothing
  and returns nil; a failed write to the stream ends the encoding with that error.
\<close>

type_synonym 'p marshaller = "'p \<Rightarrow> string list \<times> error option"

fun write_chunks :: "'s writer \<Rightarrow> 's \<Rightarrow> string list \<Rightarrow> 's \<times> error option" where
  "write_chunks w s [] = (s, None)"
| "write_chunks w s (c # cs) =
     (case w s c of
        (s1, Some err) \<Rightarrow> (s1, Some err)
      | (s1, None) \<Rightarrow> write_chunks w s1 cs)"

definition Encode :: "'p marshaller \<Rightarrow> 's writer \<Rightarrow> 's \<Rightarrow> 'p option \<Rightarrow> 's \<times> error option" where
  "Encode marshal w s v =
     (case v of
        None \<Rightarrow> (s, None)
      | Some p \<Rightarrow>
          (case marshal p of (chunks, merr) \<Rightarrow>
             (case write_chunks w s chunks of
                (s1, Some err) \<Rightarrow> (s1, Some err)
              | (s1, None) \<Rightarrow> (s1, merr))))"

text \<open>
  \<open>enc.Flush()\<close> after a successful \<open>Encode\<close> finds the encoder's buffer empty:
  \<open>Encode\<close> has flushed it. It writes nothing and returns nil.
\<close>

definition Flush :: "'s \<Rightarrow> 's \<times> error option" where
  "Flush s = (s, None)"

subsection \<open>\<open>Write\<close>\<close>

text \<open>
  Line by line as in the source. The result of the second
  \<open>xml.EscapeText(w, []byte(action.XMLName.Local))\<close> (the closing tag) is not assigned to
  \<open>err\<close>: the test that follows reads the \<open>err\<close> of the write of \<open>env4\<close>, which is nil there.
\<close>

definition Write :: "'p marshaller \<Rightarrow> 's writer \<Rightarrow> 's \<Rightarrow> 'p Action \<Rightarrow> 's \<times> error option" where
  "Write marshal w s0 action =
     (case w s0 envOpen of (s1, Some err) \<Rightarrow> (s1, Some err) | (s1, None) \<Rightarrow>
     (case w s1 env1 of (s2, Some err) \<Rightarrow> (s2, Some err) | (s2, None) \<Rightarrow>
     (case EscapeText w s2 (Local (XMLName action)) of (s3, Some err) \<Rightarrow> (s3, Some err) | (s3, None) \<Rightarrow>
     (case w s3 env2 of (s4, Some err) \<Rightarrow> (s4, Some err) | (s4, None) \<Rightarrow>
     (case EscapeText w s4 (Space (XMLName action)) of (s5, Some err) \<Rightarrow> (s5, Some err) | (s5, None) \<Rightarrow>
     (case w s5 env3 of (s6, Some err) \<Rightarrow> (s6, Some err) | (s6, None) \<Rightarrow>
     (case Encode marshal w s6 (Args action) of (s7, Some err) \<Rightarrow> (s7, Some err) | (s7, None) \<Rightarrow>
     (case Flush s7 of (s8, Some err) \<Rightarrow> (s8, Some err) | (s8, None) \<Rightarrow>
     (case w s8 env4 of (s9, Some err) \<Rightarrow> (s9, Some err) | (s9, None) \<Rightarrow>
     (case EscapeText w s9 (Local (XMLName action)) of (s10, _) \<Rightarrow>
     (case w s10 env5 of (s11, Some err) \<Rightarrow> (s11, Some err) | (s11, None) \<Rightarrow>
      w s11 envClose)))))))))))"

subsection \<open>What \<open>Write\<close> leaves on a \<open>bytes.Buffer\<close>\<close>

text \<open>
  \<open>escaped bs\<close> is what \<open>xml.EscapeText\<close> writes for \<open>bs\<close>, \<open>encoded marshal v\<close> what the
  encoder writes for the payload \<open>v\<close>, and \<open>marshal_error marshal v\<close> the error of
  marshalling it.
\<close>

definition escaped :: "string \<Rightarrow> string" where
  "escaped bs = fst (EscapeText buffer [] bs)"

definition encoded :: "'p marshaller \<Rightarrow> 'p option \<Rightarrow> string" where
  "encoded marshal v = (case v of None \<Rightarrow> [] | Some p \<Rightarrow> concat (fst (marshal p)))"

definition marshal_error :: "'p marshaller \<Rightarrow> 'p option \<Rightarrow> error option" where
  "marshal_error marshal v = (case v of None \<Rightarrow> None | Some p \<Rightarrow> snd (marshal p))"

text \<open>
  A default namespace declaration is the attribute \<open>xmlns\<close> with no prefix; as the
  encoder and the framing write attributes, it is the byte sequence \<open>xmlns=\<close>.
\<close>

definition default_xmlns :: "string \<Rightarrow> bool" where
  \<open>default_xmlns bs \<longleftrightarrow> sublist ''xmlns='' bs\<close>

subsection \<open>The parsed stream\<close>

text \<open>
  \<open>Read\<close> hands the stream to \<open>xml.Decoder\<close>, whose tokenizer is outside the package. The
  stream is modelled as the tokenizer presents it: the sequence of top-level nodes, an
  element carrying its name with the namespace prefix resolved, its attributes, the
  raw bytes between its start and end tag, and its children. \<open>Failure e\<close> stands at the
  point where reading the stream or tokenizing it fails with \<open>e\<close>.
\<close>

datatype xnode =
    Element Name "(Name \<times> string) list" string "xnode list"
  | CharData string
  | Comment string
  | ProcInst string
  | Failure error

subsection \<open>\<open>envelope\<close> and \<open>body\<close>\<close>

text \<open>
  \<open>Fault\<close> is a pointer, nil until a fault element is decoded. \<open>Action\<close> is the caller's
  action, which the decoder fills in through the pointer.
\<close>

record 'p body =
  Fault :: "Fault option"
  Action :: "'p Action"

record 'p envelope =
  XMLName :: Name
  EncodingStyle :: string
  Body :: "'p body"

definition soap_envelope_ns :: string where
  \<open>soap_envelope_ns = ''http://schemas.xmlsoap.org/soap/envelope/''\<close>

subsection \<open>Unmarshalling by the field tags\<close>

text \<open>
  \<open>Decoder.Skip\<close>: reads to the end of the current element; the first failure of the
  stream on the way is returned.
\<close>

fun Skip :: "xnode list \<Rightarrow> error option" where
  "Skip [] = None"
| "Skip (Failure e # ns) = Some e"
| "Skip (Element n as raw cs # ns) = (case Skip cs of Some e \<Rightarrow> Some e | None \<Rightarrow> Skip ns)"
| "Skip (CharData t # ns) = Skip ns"
| "Skip (Comment t # ns) = Skip ns"
| "Skip (ProcInst t # ns) = Skip ns"

text \<open>
  A \<open>string\<close> field (\<open>faultcode\<close>, \<open>faultstring\<close>, \<open>faultactor\<close>): the character data
  directly inside the element, child elements skipped.
\<close>

fun chardata :: "xnode list \<Rightarrow> string \<Rightarrow> error + string" where
  "chardata [] data = Inr data"
| "chardata (Failure e # ns) data = Inl e"
| "chardata (CharData t # ns) data = chardata ns (data @ t)"
| "chardata (Element n as raw cs # ns) data =
     (case Skip cs of Some e \<Rightarrow> Inl e | None \<Rightarrow> chardata ns data)"
| "chardata (Comment t # ns) data = chardata ns data"
| "chardata (ProcInst t # ns) data = chardata ns data"

text \<open>\<open>FaultDetail\<close>: \<open>Raw\<close> is tagged \<open>,innerxml\<close>; nothing inside is unmarshalled.\<close>

definition unmarshal_FaultDetail :: "string \<Rightarrow> xnode list \<Rightarrow> FaultDetail \<Rightarrow> FaultDetail \<times> error option" where
  "unmarshal_FaultDetail raw cs d =
     (case Skip cs of Some e \<Rightarrow> (d, Some e) | None \<Rightarrow> (d\<lparr>Raw := raw\<rparr>, None))"

text \<open>
  \<open>Fault\<close>: a child element goes to the field whose tag is its local name (the tags name
  no namespace, so any namespace matches); other children are skipped.
\<close>

fun unmarshal_Fault :: "xnode list \<Rightarrow> Fault \<Rightarrow> Fault \<times> error option" where
  "unmarshal_Fault [] f = (f, None)"
| "unmarshal_Fault (Failure e # ns) f = (f, Some e)"
| "unmarshal_Fault (Element n as raw cs # ns) f =
     (if Local n = ''faultcode'' then
        (case chardata cs [] of Inl e \<Rightarrow> (f, Some e) | Inr d \<Rightarrow> unmarshal_Fault ns (f\<lparr>Code := d\<rparr>))
      else if Local n = ''faultstring'' then
        (case chardata cs [] of Inl e \<Rightarrow> (f, Some e) | Inr d \<Rightarrow> unmarshal_Fault ns (f\<lparr>String := d\<rparr>))
      else if Local n = ''faultactor'' then
        (case chardata cs [] of Inl e \<Rightarrow> (f, Some e) | Inr d \<Rightarrow> unmarshal_Fault ns (f\<lparr>Actor := d\<rparr>))
      else if Local n = ''detail'' then
        (case unmarshal_FaultDetail raw cs (Detail f) of
           (d, Some e) \<Rightarrow> (f\<lparr>Detail := d\<rparr>, Some e)
         | (d, None) \<Rightarrow> unmarshal_Fault ns (f\<lparr>Detail := d\<rparr>))
      else
        (case Skip cs of Some e \<Rightarrow> (f, Some e) | None \<Rightarrow> unmarshal_Fault ns f))"
| "unmarshal_Fault (CharData t # ns) f = unmarshal_Fault ns f"
| "unmarshal_Fault (Comment t # ns) f = unmarshal_Fault ns f"
| "unmarshal_Fault (ProcInst t # ns) f = unmarshal_Fault ns f"

text \<open>
  The payload's type is the caller's, so unmarshalling one element into it is a
  parameter: \<open>unmarshal el p\<close> gives the payload after the element \<open>el\<close> and the error if
  there is one.
\<close>

type_synonym 'p unmarshaller = "xnode \<Rightarrow> 'p \<Rightarrow> 'p \<times> error option"

text \<open>
  \<open>Action\<close>: \<open>XMLName\<close> has no tag, so no name is expected and the field receives the name
  of the element. \<open>Args\<close> is tagged \<open>,any\<close>: every child element is unmarshalled into it;
  into a nil interface nothing is unmarshalled and the child is skipped.
\<close>

fun unmarshal_Args :: "'p unmarshaller \<Rightarrow> xnode list \<Rightarrow> 'p Action \<Rightarrow> 'p Action \<times> error option" where
  "unmarshal_Args unmarshal [] a = (a, None)"
| "unmarshal_Args unmarshal (Failure e # ns) a = (a, Some e)"
| "unmarshal_Args unmarshal (Element n as raw cs # ns) a =
     (case Args a of
        None \<Rightarrow> (case Skip cs of Some e \<Rightarrow> (a, Some e) | None \<Rightarrow> unmarshal_Args unmarshal ns a)
      | Some p \<Rightarrow>
          (case unmarshal (Element n as raw cs) p of
             (p', Some e) \<Rightarrow> (a\<lparr>Args := Some p'\<rparr>, Some e)
           | (p', None) \<Rightarrow> unmarshal_Args unmarshal ns (a\<lparr>Args := Some p'\<rparr>)))"
| "unmarshal_Args unmarshal (CharData t # ns) a = unmarshal_Args unmarshal ns a"
| "unmarshal_Args unmarshal (Comment t # ns) a = unmarshal_Args unmarshal ns a"
| "unmarshal_Args unmarshal (ProcInst t # ns) a = unmarshal_Args unmarshal ns a"

definition unmarshal_Action :: "'p unmarshaller \<Rightarrow> Name \<Rightarrow> xnode list \<Rightarrow> 'p Action \<Rightarrow> 'p Action \<times> error option" where
  "unmarshal_Action unmarshal n cs a = unmarshal_Args unmarshal cs (a\<lparr>Action.XMLName := n\<rparr>)"

definition zero_Fault :: Fault where
  "zero_Fault = \<lparr>Code = [], String = [], Actor = [], Detail = \<lparr>Raw = []\<rparr>\<rparr>"

text \<open>
  \<open>body\<close>: a child element with the local name \<open>Fault\<close> goes to the field \<open>Fault\<close>, allocated
  when it is still nil; every other child element goes to \<open>Action\<close>, tagged \<open>,any\<close>.
\<close>

fun unmarshal_body :: "'p unmarshaller \<Rightarrow> xnode list \<Rightarrow> 'p body \<Rightarrow> 'p body \<times> error option" where
  "unmarshal_body unmarshal [] b = (b, None)"
| "unmarshal_body unmarshal (Failure e # ns) b = (b, Some e)"
| "unmarshal_body unmarshal (Element n as raw cs # ns) b =
     (if Local n = ''Fault'' then
        (case unmarshal_Fault cs (case Fault b of None \<Rightarrow> zero_Fault | Some f \<Rightarrow> f) of
           (f', Some e) \<Rightarrow> (b\<lparr>Fault := Some f'\<rparr>, Some e)
         | (f', None) \<Rightarrow> unmarshal_body unmarshal ns (b\<lparr>Fault := Some f'\<rparr>))
      else
        (case unmarshal_Action unmarshal n cs (Action b) of
           (a', Some e) \<Rightarrow> (b\<lparr>Action := a'\<rparr>, Some e)
         | (a', None) \<Rightarrow> unmarshal_body unmarshal ns (b\<lparr>Action := a'\<rparr>)))"
| "unmarshal_body unmarshal (CharData t # ns) b = unmarshal_body unmarshal ns b"
| "unmarshal_body unmarshal (Comment t # ns) b = unmarshal_body unmarshal ns b"
| "unmarshal_body unmarshal (ProcInst t # ns) b = unmarshal_body unmarshal ns b"

text \<open>
  \<open>envelope\<close>: the attribute \<open>encodingStyle\<close> and the child element \<open>Body\<close>, both in the SOAP
  envelope namespace; other children are skipped.
\<close>

fun unmarshal_attrs :: "(Name \<times> string) list \<Rightarrow> 'p envelope \<Rightarrow> 'p envelope" where
  "unmarshal_attrs [] env = env"
| "unmarshal_attrs ((n, v) # as) env =
     unmarshal_attrs as
       (if Local n = ''encodingStyle'' \<and> Space n = soap_envelope_ns
        then env\<lparr>EncodingStyle := v\<rparr> else env)"

fun unmarshal_children :: "'p unmarshaller \<Rightarrow> xnode list \<Rightarrow> 'p envelope \<Rightarrow> 'p envelope \<times> error option" where
  "unmarshal_children unmarshal [] env = (env, None)"
| "unmarshal_children unmarshal (Failure e # ns) env = (env, Some e)"
| "unmarshal_children unmarshal (Element n as raw cs # ns) env =
     (if Space n = soap_envelope_ns \<and> Local n = ''Body'' then
        (case unmarshal_body unmarshal cs (Body env) of
           (b', Some e) \<Rightarrow> (env\<lparr>Body := b'\<rparr>, Some e)
         | (b', None) \<Rightarrow> unmarshal_children unmarshal ns (env\<lparr>Body := b'\<rparr>))
      else
        (case Skip cs of Some e \<Rightarrow> (env, Some e) | None \<Rightarrow> unmarshal_children unmarshal ns env))"
| "unmarshal_children unmarshal (CharData t # ns) env = unmarshal_children unmarshal ns env"
| "unmarshal_children unmarshal (Comment t # ns) env = unmarshal_children unmarshal ns env"
| "unmarshal_children unmarshal (ProcInst t # ns) env = unmarshal_children unmarshal ns env"

text \<open>
  The tag of \<open>envelope.XMLName\<close> names the element expected: \<open>Envelope\<close> in the SOAP
  envelope namespace. Another root element is an error of the decoder.
\<close>

definition unmarshal_envelope ::
    "'p unmarshaller \<Rightarrow> Name \<Rightarrow> (Name \<times> string) list \<Rightarrow> xnode list \<Rightarrow> 'p envelope \<Rightarrow> 'p envelope \<times> error option" where
  "unmarshal_envelope unmarshal n as cs env =
     (if Local n \<noteq> ''Envelope'' then
        (env, Some (XMLError (''expected element type <Envelope> but have <'' @ Local n @ ''>'')))
      else if Space n \<noteq> soap_envelope_ns then
        (env, Some (XMLError (''expected element <Envelope> in name space '' @ soap_envelope_ns)))
      else
        unmarshal_children unmarshal cs (unmarshal_attrs as (env\<lparr>envelope.XMLName := n\<rparr>)))"

text \<open>
  \<open>Decoder.Decode\<close>: the first element of the stream is unmarshalled, what precedes it
  is passed over, and what follows it is not read. A stream that ends before any
  element gives \<open>io.EOF\<close>.
\<close>

fun Decode :: "'p unmarshaller \<Rightarrow> xnode list \<Rightarrow> 'p envelope \<Rightarrow> 'p envelope \<times> error option" where
  "Decode unmarshal [] env = (env, Some (StreamError ''EOF''))"
| "Decode unmarshal (Failure e # ns) env = (env, Some e)"
| "Decode unmarshal (Element n as raw cs # ns) env = unmarshal_envelope unmarshal n as cs env"
| "Decode unmarshal (CharData t # ns) env = Decode unmarshal ns env"
| "Decode unmarshal (Comment t # ns) env = Decode unmarshal ns env"
| "Decode unmarshal (ProcInst t # ns) env = Decode unmarshal ns env"

subsection \<open>\<open>Read\<close>\<close>

text \<open>
  \<open>Read\<close> builds the envelope around the caller's action, decodes into it and looks at
  \<open>env.Body.Fault\<close>. The decoder is a parameter, so that the decision holds of any
  outcome of decoding; \<open>Decode unmarshal\<close> above is the decoder the package uses. The
  action is returned as the decoder left it.
\<close>

type_synonym ('r, 'p) decoder = "'r \<Rightarrow> 'p envelope \<Rightarrow> 'p envelope \<times> error option"

definition new_envelope :: "'p Action \<Rightarrow> 'p envelope" where
  "new_envelope action =
     \<lparr>envelope.XMLName = \<lparr>Space = [], Local = []\<rparr>, EncodingStyle = [],
      Body = \<lparr>Fault = None, Action = action\<rparr>\<rparr>"

definition Read :: "('r, 'p) decoder \<Rightarrow> 'r \<Rightarrow> 'p Action \<Rightarrow> 'p Action \<times> error option" where
  "Read decode r action =
     (case decode r (new_envelope action) of
        (env, Some err) \<Rightarrow> (Action (Body env), Some err)
      | (env, None) \<Rightarrow>
          (case Fault (Body env) of
             Some fault \<Rightarrow> (Action (Body env), Some (FaultError fault))
           | None \<Rightarrow> (Action (Body env), None)))"

subsection \<open>Inputs and predicates of the properties\<close>

text \<open>The action \<open>GetStatus\<close> in the namespace \<open>urn:example\<close> with a nil payload.\<close>

definition GetStatus :: "'p Action" where
  "GetStatus = \<lparr>Action.XMLName = \<lparr>Space = ''urn:example'', Local = ''GetStatus''\<rparr>, Args = None\<rparr>"

text \<open>The envelope that the specification gives for it, as the specification writes it.\<close>

definition spec_GetStatus_envelope :: string where
  \<open>spec_GetStatus_envelope =
     ''<?xml version="1.0" encoding="UTF-8"?><s:Envelope xmlns:s="http://schemas.xmlsoap.org/soap/envelope/" s:encodingStyle="http://schemas.xmlsoap.org/soap/encoding/"><s:Body><u:GetStatus xmlns:u="urn:example"></u:GetStatus></s:Body></s:Envelope>''\<close>

text \<open>A stream on which only the call of index \<open>k\<close> fails.\<close>

definition fails_at :: "nat \<Rightarrow> error \<Rightarrow> nat \<Rightarrow> error option" where
  "fails_at k e i = (if i = k then Some e else None)"

text \<open>A stream on which every call from index \<open>k\<close> on fails.\<close>

definition fails_from :: "nat \<Rightarrow> error \<Rightarrow> nat \<Rightarrow> error option" where
  "fails_from k e i = (if k \<le> i then Some e else None)"

text \<open>
  Whether the stream holds a fault: its first element has a child \<open>Body\<close> of the SOAP
  envelope namespace with a child element of the local name \<open>Fault\<close>.
\<close>

fun has_Fault :: "xnode list \<Rightarrow> bool" where
  "has_Fault [] = False"
| "has_Fault (Element n as raw cs # ns) = (Local n = ''Fault'' \<or> has_Fault ns)"
| "has_Fault (CharData t # ns) = has_Fault ns"
| "has_Fault (Comment t # ns) = has_Fault ns"
| "has_Fault (ProcInst t # ns) = has_Fault ns"
| "has_Fault (Failure e # ns) = has_Fault ns"

fun Body_has_Fault :: "xnode list \<Rightarrow> bool" where
  "Body_has_Fault [] = False"
| "Body_has_Fault (Element n as raw cs # ns) =
     ((Space n = soap_envelope_ns \<and> Local n = ''Body'' \<and> has_Fault cs) \<or> Body_has_Fault ns)"
| "Body_has_Fault (CharData t # ns) = Body_has_Fault ns"
| "Body_has_Fault (Comment t # ns) = Body_has_Fault ns"
| "Body_has_Fault (ProcInst t # ns) = Body_has_Fault ns"
| "Body_has_Fault (Failure e # ns) = Body_has_Fault ns"

fun envelope_has_Fault :: "xnode list \<Rightarrow> bool" where
  "envelope_has_Fault [] = False"
| "envelope_has_Fault (Element n as raw cs # ns) = Body_has_Fault cs"
| "envelope_has_Fault (CharData t # ns) = envelope_has_Fault ns"
| "envelope_has_Fault (Comment t # ns) = envelope_has_Fault ns"
| "envelope_has_Fault (ProcInst t # ns) = envelope_has_Fault ns"
| "envelope_has_Fault (Failure e # ns) = False"

text \<open>An element with character data only, and an envelope with the given \<open>Body\<close> children.\<close>

definition text_element :: "string \<Rightarrow> string \<Rightarrow> xnode" where
  "text_element name t = Element \<lparr>Space = [], Local = name\<rparr> [] t [CharData t]"

definition soap_envelope :: "xnode list \<Rightarrow> xnode list" where
  "soap_envelope body_children =
     [Element \<lparr>Space = soap_envelope_ns, Local = ''Envelope''\<rparr> [] []
        [Element \<lparr>Space = soap_envelope_ns, Local = ''Body''\<rparr> [] [] body_children]]"

text \<open>
  The fault of the specification:
  \<^verbatim>\<open><Fault><faultcode>Server</faultcode><faultstring>boom</faultstring><faultactor>svc1</faultactor><detail><x>1</x></detail></Fault>\<close>
\<close>

definition boom_Fault :: xnode where
  \<open>boom_Fault =
     Element \<lparr>Space = [], Local = ''Fault''\<rparr> []
       ''<faultcode>Server</faultcode><faultstring>boom</faultstring><faultactor>svc1</faultactor><detail><x>1</x></detail>''
       [text_element ''faultcode'' ''Server'',
        text_element ''faultstring'' ''boom'',
        text_element ''faultactor'' ''svc1'',
        Element \<lparr>Space = [], Local = ''detail''\<rparr> [] ''<x>1</x>'' [text_element ''x'' ''1'']]\<close>

text \<open>
  A payload for running the code: a record of one string field, marshalled as the
  element \<open>Args\<close> with the child \<open>Foo\<close>, and unmarshalled from the character data of the
  child \<open>Foo\<close> of the element it is given.
\<close>

fun unmarshal_Foo :: "xnode list \<Rightarrow> string \<Rightarrow> string \<times> error option" where
  "unmarshal_Foo [] p = (p, None)"
| "unmarshal_Foo (Failure e # ns) p = (p, Some e)"
| "unmarshal_Foo (Element n as raw cs # ns) p =
     (if Local n = ''Foo'' then
        (case chardata cs [] of Inl e \<Rightarrow> (p, Some e) | Inr d \<Rightarrow> unmarshal_Foo ns d)
      else
        (case Skip cs of Some e \<Rightarrow> (p, Some e) | None \<Rightarrow> unmarshal_Foo ns p))"
| "unmarshal_Foo (CharData t # ns) p = unmarshal_Foo ns p"
| "unmarshal_Foo (Comment t # ns) p = unmarshal_Foo ns p"
| "unmarshal_Foo (ProcInst t # ns) p = unmarshal_Foo ns p"

fun unmarshal_FooArgs :: "string unmarshaller" where
  "unmarshal_FooArgs (Element n as raw cs) p = unmarshal_Foo cs p"
| "unmarshal_FooArgs (CharData t) p = (p, None)"
| "unmarshal_FooArgs (Comment t) p = (p, None)"
| "unmarshal_FooArgs (ProcInst t) p = (p, None)"
| "unmarshal_FooArgs (Failure e) p = (p, Some e)"

definition marshal_FooArgs :: "string marshaller" where
  \<open>marshal_FooArgs p = ([''<Args><Foo>'' @ escaped p @ ''</Foo></Args>''], None)\<close>

text \<open>
  A payload whose type names a namespace for its element: the encoder declares it as
  the default namespace of that element.
\<close>

definition marshal_namespaced :: "unit marshaller" where
  \<open>marshal_namespaced p = ([''<Args xmlns="urn:foo"></Args>''], None)\<close>

text \<open>The bytes that \<open>xml.EscapeText\<close> writes for one ASCII byte.\<close>

definition escape_byte :: "char \<Rightarrow> string" where
  "escape_byte c = (case escape_of (of_char c) 1 of None \<Rightarrow> [c] | Some esc \<Rightarrow> esc)"

text \<open>
  A response element with the payload \<open>bar\<close>, the action a caller passes to \<open>Read\<close>, and
  the action and the fault that decoding gives.
\<close>

definition GetStatusResponse :: xnode where
  \<open>GetStatusResponse =
     Element \<lparr>Space = ''urn:example'', Local = ''GetStatusResponse''\<rparr> []
       ''<Args><Foo>bar</Foo></Args>''
       [Element \<lparr>Space = [], Local = ''Args''\<rparr> [] ''<Foo>bar</Foo>''
          [text_element ''Foo'' ''bar'']]\<close>

definition caller_action :: "string Action" where
  "caller_action =
     \<lparr>Action.XMLName = \<lparr>Space = ''urn:example'', Local = ''GetStatus''\<rparr>, Args = Some []\<rparr>"

definition decoded_action :: "string Action" where
  "decoded_action =
     \<lparr>Action.XMLName = \<lparr>Space = ''urn:example'', Local = ''GetStatusResponse''\<rparr>,
      Args = Some ''bar''\<rparr>"

definition decoded_Fault :: Fault where
  \<open>decoded_Fault =
     \<lparr>Code = ''Server'', String = ''boom'', Actor = ''svc1'', Detail = \<lparr>Raw = ''<x>1</x>''\<rparr>\<rparr>\<close>

section \<open>Properties of \<open>Write\<close>\<close>

subsection \<open>Writing to a buffer\<close>

lemma escapeText_buffer:
  "escapeText buffer s pend bs = (s @ fst (escapeText buffer [] pend bs), None)"
proof (induction "length bs" arbitrary: s pend bs rule: less_induct)
  case less
  show ?case
  proof (cases bs)
    case Nil
    then show ?thesis by (simp add: buffer_def)
  next
    case (Cons c cs)
    obtain r width where d: "DecodeRune (c # cs) = (r, width)"
      by (cases "DecodeRune (c # cs)")
    have len: "length (drop (width - 1) cs) < length bs"
      using Cons by simp
    show ?thesis
    proof (cases "escape_of r width")
      case None
      then show ?thesis
        using Cons d less[OF len, of s] less[OF len, of "[]"] by simp
    next
      case (Some esc)
      then show ?thesis
        using Cons d less[OF len, of "s @ pend @ esc" "[]"] less[OF len, of "pend @ esc" "[]"]
        by (simp add: buffer_def)
    qed
  qed
qed

lemma EscapeText_buffer: "EscapeText buffer s bs = (s @ escaped bs, None)"
  unfolding EscapeText_def escaped_def using escapeText_buffer[of s "[]" bs] by simp

lemma write_chunks_buffer: "write_chunks buffer s cs = (s @ concat cs, None)"
  by (induction cs arbitrary: s) (simp_all add: buffer_def)

lemma Encode_buffer:
  "Encode marshal buffer s v = (s @ encoded marshal v, marshal_error marshal v)"
  by (cases v)
     (auto simp: Encode_def encoded_def marshal_error_def write_chunks_buffer
           split: prod.splits option.splits)

text \<open>
  On a buffer \<open>Write\<close> leaves the whole envelope when the payload marshals, and the
  envelope up to the payload when it does not.
\<close>

lemma Write_buffer:
  "Write marshal buffer s action =
     (case marshal_error marshal (Args action) of
        Some err \<Rightarrow>
          (s @ envOpen @ env1 @ escaped (Local (Action.XMLName action)) @ env2
             @ escaped (Space (Action.XMLName action)) @ env3 @ encoded marshal (Args action),
           Some err)
      | None \<Rightarrow>
          (s @ envOpen @ env1 @ escaped (Local (Action.XMLName action)) @ env2
             @ escaped (Space (Action.XMLName action)) @ env3 @ encoded marshal (Args action)
             @ env4 @ escaped (Local (Action.XMLName action)) @ env5 @ envClose,
           None))"
  by (simp add: Write_def EscapeText_buffer Encode_buffer Flush_def buffer_def
           split: option.splits)

subsection \<open>Escaping of ASCII text\<close>

lemma escapeText_buffer_ascii:
  "\<forall>c \<in> set bs. (of_char c :: nat) < 0x80 \<Longrightarrow>
     fst (escapeText buffer [] pend bs) = pend @ concat (map escape_byte bs)"
proof (induction bs arbitrary: pend)
  case Nil
  then show ?case by (simp add: buffer_def)
next
  case (Cons c cs)
  then have d: "DecodeRune (c # cs) = (of_char c, 1)" by simp
  show ?case
  proof (cases "escape_of (of_char c) 1")
    case None
    then show ?thesis using Cons d by (simp add: escape_byte_def)
  next
    case (Some esc)
    have w: "buffer [] pend = (pend, None)" "buffer pend esc = (pend @ esc, None)"
      by (simp_all add: buffer_def)
    from Some show ?thesis
      using Cons d escapeText_buffer[of "pend @ esc" "[]" cs] w
      by (simp add: escape_byte_def)
  qed
qed

lemma escaped_ascii:
  "\<forall>c \<in> set bs. (of_char c :: nat) < 0x80 \<Longrightarrow> escaped bs = concat (map escape_byte bs)"
  unfolding escaped_def EscapeText_def using escapeText_buffer_ascii[of bs "[]"] by simp

lemmas escape_defs =
  escape_byte_def escape_of_def isInCharacterRange_def RuneError_def
  escQuot_def escApos_def escAmp_def escLT_def escGT_def escTab_def escNL_def escCR_def
  escFFFD_def

lemma escape_byte_examples:
  \<open>escape_byte (CHR ''<'') = ''&lt;''\<close>
  \<open>escape_byte (CHR ''&'') = ''&amp;''\<close>
  \<open>escape_byte (CHR 0x22) = ''&#34;''\<close>
  \<open>escape_byte (CHR ''a'') = ''a''\<close>
  by (simp_all add: escape_defs)

lemma escaped_GetStatus: "escaped ''GetStatus'' = ''GetStatus''"
  by (simp add: escaped_ascii escape_defs)

lemma escaped_urn_example: "escaped ''urn:example'' = ''urn:example''"
  by (simp add: escaped_ascii escape_defs)

text \<open>The namespace \<open>urn:a&b\<close> is written as \<open>urn:a&amp;b\<close>.\<close>

lemma escaped_ampersand: "escaped ''urn:a&b'' = ''urn:a&amp;b''"
  by (simp add: escaped_ascii escape_defs)

subsection \<open>The envelope of \<open>GetStatus\<close>\<close>

text \<open>
  C3, as the specification states it: \<open>Write\<close> of the action \<open>GetStatus\<close> in \<open>urn:example\<close>
  with an empty payload produces the specification's byte sequence. It does not:
  \<open>envOpen\<close> begins with \<open>xml.Header\<close>, which ends in a newline, and the specification's
  bytes have none.
\<close>

theorem Write_GetStatus_not_spec_bytes:
  "fst (Write marshal_FooArgs buffer [] GetStatus) \<noteq> spec_GetStatus_envelope"
  by (simp add: Write_buffer GetStatus_def marshal_error_def encoded_def
        escaped_GetStatus escaped_urn_example envOpen_def xml_Header_def
        spec_GetStatus_envelope_def env1_def)

text \<open>
  C3, amended: \<open>Write\<close> of the action \<open>GetStatus\<close> in \<open>urn:example\<close> with a nil payload
  succeeds and produces the XML declaration, a newline, and then the envelope of the
  specification, byte for byte.
\<close>

theorem Write_GetStatus_bytes:
  \<open>Write marshal buffer [] GetStatus =
     (''<?xml version="1.0" encoding="UTF-8"?>'' @ [CHR 0x0A] @
      ''<s:Envelope xmlns:s="http://schemas.xmlsoap.org/soap/envelope/" s:encodingStyle="http://schemas.xmlsoap.org/soap/encoding/"><s:Body><u:GetStatus xmlns:u="urn:example"></u:GetStatus></s:Body></s:Envelope>'',
      None)\<close>
  by (simp add: Write_buffer GetStatus_def marshal_error_def encoded_def
        escaped_GetStatus escaped_urn_example envOpen_def xml_Header_def
        env1_def env2_def env3_def env4_def env5_def envClose_def)

subsection \<open>Escaped names in the wrapper tag\<close>


text \<open>The envelope of an action in the namespace \<open>urn:a&b\<close>.\<close>

lemma Write_escapes_ampersand:
  \<open>Write marshal buffer []
      \<lparr>Action.XMLName = \<lparr>Space = ''urn:a&b'', Local = ''Get''\<rparr>, Args = None\<rparr> =
     (envOpen @ ''<u:Get xmlns:u="urn:a&amp;b"></u:Get>'' @ envClose, None)\<close>
proof -
  have "escaped ''Get'' = ''Get''" by (simp add: escaped_ascii escape_defs)
  then show ?thesis
    by (simp add: Write_buffer marshal_error_def encoded_def escaped_ampersand
        env1_def env2_def env3_def env4_def env5_def)
qed

subsection \<open>Namespace declarations of the envelope\<close>

lemma prefix_separator:
  "c \<notin> set p \<Longrightarrow> prefix p (a @ c # b) \<longleftrightarrow> prefix p a"
proof (induction p arbitrary: a)
  case Nil
  then show ?case by simp
next
  case (Cons x xs)
  then show ?case by (cases a) auto
qed

text \<open>A byte that does not occur in \<open>p\<close> separates the occurrences of \<open>p\<close>.\<close>

lemma sublist_separator:
  "c \<notin> set p \<Longrightarrow> p \<noteq> [] \<Longrightarrow> sublist p (a @ c # b) \<longleftrightarrow> sublist p a \<or> sublist p b"
proof (induction a)
  case Nil
  then show ?case
    using prefix_separator[of c p "[]" b] by (simp add: sublist_Cons_right)
next
  case (Cons y ys)
  then show ?case
    using prefix_separator[of c p "y # ys" b] by (auto simp add: sublist_Cons_right)
qed

lemma sublist_middle: "sublist p m \<Longrightarrow> sublist p (pre @ m @ post)"
proof -
  assume "sublist p m"
  then obtain a b where "m = a @ p @ b" by (auto simp: sublist_def)
  then have "pre @ m @ post = (pre @ a) @ p @ (b @ post)" by simp
  then show ?thesis unfolding sublist_def by blast
qed

lemma framing_no_default_xmlns:
  assumes "\<not> default_xmlns l" "\<not> default_xmlns n" "\<not> default_xmlns p"
  shows "\<not> default_xmlns (envOpen @ env1 @ l @ env2 @ n @ env3 @ p @ env4 @ l @ env5 @ envClose)"
  using assms
  unfolding default_xmlns_def envOpen_def xml_Header_def env1_def env2_def env3_def
    env4_def env5_def envClose_def
  by (simp add: sublist_separator sublist_Cons_right)

lemma framing_prefix_no_default_xmlns:
  assumes "\<not> default_xmlns l" "\<not> default_xmlns n" "\<not> default_xmlns p"
  shows "\<not> default_xmlns (envOpen @ env1 @ l @ env2 @ n @ env3 @ p)"
  using assms
  unfolding default_xmlns_def envOpen_def xml_Header_def env1_def env2_def env3_def
  by (simp add: sublist_separator sublist_Cons_right)

text \<open>
  C7, as the specification states it: the complete envelope declares no default
  namespace at any nesting level. It does for a payload whose element has a namespace:
  the payload is written as the encoder marshals it, inside the wrapper element.
\<close>

theorem Write_payload_default_xmlns:
  "default_xmlns (fst (Write marshal_namespaced buffer []
      \<lparr>Action.XMLName = \<lparr>Space = ''urn:example'', Local = ''GetStatus''\<rparr>, Args = Some ()\<rparr>))"
proof -
  have frag: \<open>sublist ''xmlns='' ''<Args xmlns="urn:foo"></Args>''\<close>
    by (simp add: sublist_Cons_right)
  have out: \<open>fst (Write marshal_namespaced buffer []
      \<lparr>Action.XMLName = \<lparr>Space = ''urn:example'', Local = ''GetStatus''\<rparr>, Args = Some ()\<rparr>)
    = (envOpen @ env1 @ escaped ''GetStatus'' @ env2 @ escaped ''urn:example'' @ env3)
      @ ''<Args xmlns="urn:foo"></Args>''
      @ (env4 @ escaped ''GetStatus'' @ env5 @ envClose)\<close>
    by (simp add: Write_buffer marshal_error_def encoded_def marshal_namespaced_def)
  show ?thesis
    unfolding default_xmlns_def out by (rule sublist_middle[OF frag])
qed

text \<open>
  C7, amended: the framing that \<open>Write\<close> emits itself declares no default namespace.
  For every action, if the escaped local name, the escaped namespace and the
  marshalled payload are free of \<open>xmlns=\<close>, so is all that \<open>Write\<close> puts on the stream.
\<close>

theorem Write_framing_no_default_xmlns:
  assumes "\<not> default_xmlns (escaped (Local (Action.XMLName action)))"
      and "\<not> default_xmlns (escaped (Space (Action.XMLName action)))"
      and "\<not> default_xmlns (encoded marshal (Args action))"
  shows "\<not> default_xmlns (fst (Write marshal buffer [] action))"
proof (cases "marshal_error marshal (Args action)")
  case None
  then show ?thesis
    using framing_no_default_xmlns[OF assms] by (simp add: Write_buffer)
next
  case (Some err)
  then show ?thesis
    using framing_prefix_no_default_xmlns[OF assms] by (simp add: Write_buffer)
qed

lemma default_xmlns_examples:
  "\<not> default_xmlns ''GetStatus''" "\<not> default_xmlns ''urn:example''"
  \<open>\<not> default_xmlns ''<Args><Foo>bar</Foo></Args>''\<close>
  by (simp_all add: default_xmlns_def sublist_Cons_right)

theorem Write_framing_no_default_xmlns_witness:
  "\<not> default_xmlns (escaped ''GetStatus'') \<and> \<not> default_xmlns (escaped ''urn:example'')
   \<and> \<not> default_xmlns (encoded marshal_FooArgs (Some ''bar''))
   \<and> \<not> default_xmlns (fst (Write marshal_FooArgs buffer []
        \<lparr>Action.XMLName = \<lparr>Space = ''urn:example'', Local = ''GetStatus''\<rparr>, Args = Some ''bar''\<rparr>))"
proof -
  have e: "escaped ''bar'' = ''bar''" by (simp add: escaped_ascii escape_defs)
  have h1: "\<not> default_xmlns (escaped ''GetStatus'')"
    and h2: "\<not> default_xmlns (escaped ''urn:example'')"
    and h3: "\<not> default_xmlns (encoded marshal_FooArgs (Some ''bar''))"
    by (simp_all add: escaped_GetStatus escaped_urn_example encoded_def marshal_FooArgs_def e
          default_xmlns_examples)
  show ?thesis
    using h1 h2 h3
      Write_framing_no_default_xmlns[of
        "\<lparr>Action.XMLName = \<lparr>Space = ''urn:example'', Local = ''GetStatus''\<rparr>, Args = Some ''bar''\<rparr>"
        marshal_FooArgs]
    by simp
qed

subsection \<open>Errors of the stream\<close>

text \<open>Text with nothing to escape is written by one call.\<close>

lemma EscapeText_GetStatus: "EscapeText w s ''GetStatus'' = w s ''GetStatus''"
  by (simp add: EscapeText_def escape_of_def isInCharacterRange_def RuneError_def)

lemma EscapeText_urn_example: "EscapeText w s ''urn:example'' = w s ''urn:example''"
  by (simp add: EscapeText_def escape_of_def isInCharacterRange_def RuneError_def)

text \<open>
  An error of the stream while the open tag is written is returned at once: the call of
  index 2 writes the local name, and no call follows it.
\<close>

lemma Write_open_tag_error:
  "Write marshal (recorder (fails_at 2 (StreamError ''broken pipe''))) [] GetStatus =
     ([envOpen, env1, ''GetStatus''], Some (StreamError ''broken pipe''))"
  by (simp add: Write_def GetStatus_def EscapeText_GetStatus EscapeText_urn_example
        Encode_def Flush_def fails_at_def recorder_def)

text \<open>
  C2 fails on the code. The call of index 7 is the write of the local name in the
  closing tag. When only that call fails, \<open>Write\<close> goes on to write \<open>env5\<close> and \<open>envClose\<close>
  and returns nil: the error is lost.
\<close>

theorem Write_close_tag_error_lost:
  "Write marshal (recorder (fails_at 7 (StreamError ''broken pipe''))) [] GetStatus =
     ([envOpen, env1, ''GetStatus'', env2, ''urn:example'', env3, env4, ''GetStatus'', env5,
       envClose],
      None)"
  by (simp add: Write_def GetStatus_def EscapeText_GetStatus EscapeText_urn_example
        Encode_def Flush_def fails_at_def recorder_def)

text \<open>
  When the stream fails from that call on, \<open>Write\<close> still attempts the write of \<open>env5\<close>
  and returns the error of that later call.
\<close>

lemma Write_close_tag_error_late:
  "Write marshal (recorder (fails_from 7 (StreamError ''broken pipe''))) [] GetStatus =
     ([envOpen, env1, ''GetStatus'', env2, ''urn:example'', env3, env4, ''GetStatus'', env5],
      Some (StreamError ''broken pipe''))"
  by (simp add: Write_def GetStatus_def EscapeText_GetStatus EscapeText_urn_example
        Encode_def Flush_def fails_from_def recorder_def)

section \<open>Properties of \<open>Read\<close>\<close>

subsection \<open>What the decoder keeps\<close>

lemma unmarshal_attrs_Body: "Body (unmarshal_attrs as env) = Body env"
  by (induction as env rule: unmarshal_attrs.induct) simp_all


text \<open>A fault, once decoded, stays; a fault element that is reached is decoded.\<close>

lemma unmarshal_body_Fault:
  "unmarshal_body unmarshal ns b = (b', None) \<Longrightarrow> has_Fault ns \<or> Fault b \<noteq> None \<Longrightarrow>
     Fault b' \<noteq> None"
proof (induction unmarshal ns b rule: unmarshal_body.induct)
  case (3 unmarshal n as raw cs ns b)
  show ?case
  proof (cases "Local n = ''Fault''")
    case True
    then show ?thesis using 3 by (auto split: prod.splits option.splits)
  next
    case False
    then show ?thesis using 3 by (auto split: prod.splits option.splits)
  qed
qed simp_all

lemma unmarshal_children_Fault:
  "unmarshal_children unmarshal ns env = (env', None) \<Longrightarrow>
     Body_has_Fault ns \<or> Fault (Body env) \<noteq> None \<Longrightarrow> Fault (Body env') \<noteq> None"
proof (induction unmarshal ns env rule: unmarshal_children.induct)
  case (3 unmarshal n as raw cs ns env)
  show ?case
  proof (cases "Space n = soap_envelope_ns \<and> Local n = ''Body''")
    case True
    then show ?thesis using 3
      by (auto split: prod.splits option.splits dest: unmarshal_body_Fault)
  next
    case False
    then show ?thesis using 3 by (auto split: prod.splits option.splits)
  qed
qed simp_all

lemma Decode_Fault:
  "Decode unmarshal doc env = (env', None) \<Longrightarrow> envelope_has_Fault doc \<Longrightarrow>
     Fault (Body env') \<noteq> None"
proof (induction unmarshal doc env rule: Decode.induct)
  case (3 unmarshal n as raw cs ns env)
  then show ?case
    using unmarshal_children_Fault[of unmarshal cs
            "unmarshal_attrs as (env\<lparr>envelope.XMLName := n\<rparr>)" env']
    by (auto simp: unmarshal_envelope_def unmarshal_attrs_Body split: if_splits)
qed simp_all

lemmas decode_defs =
  new_envelope_def soap_envelope_def boom_Fault_def text_element_def unmarshal_envelope_def
  soap_envelope_ns_def unmarshal_FaultDetail_def zero_Fault_def unmarshal_Action_def
  GetStatusResponse_def caller_action_def decoded_action_def decoded_Fault_def


subsection \<open>Errors of decoding\<close>

text \<open>
  C8: whenever decoding fails, whatever the decoder has put into the envelope before
  the failure (a fault included), \<open>Read\<close> returns the error of the decoder itself.
\<close>

theorem Read_decode_error:
  assumes "decode r (new_envelope action) = (env, Some err)"
  shows "Read decode r action = (Action (Body env), Some err)"
  using assms by (simp add: Read_def)

text \<open>
  A stream that breaks off after a complete fault element: the fault is decoded, and
  \<open>Read\<close> returns the error of the tokenizer.
\<close>

theorem Read_decode_error_witness:
  "Decode unmarshal_FooArgs (soap_envelope [boom_Fault, Failure (XMLError ''unexpected EOF'')])
       (new_envelope caller_action) =
     (\<lparr>envelope.XMLName = \<lparr>Space = soap_envelope_ns, Local = ''Envelope''\<rparr>, EncodingStyle = [],
        Body = \<lparr>Fault = Some decoded_Fault, Action = caller_action\<rparr>\<rparr>,
      Some (XMLError ''unexpected EOF''))
   \<and> Read (Decode unmarshal_FooArgs)
         (soap_envelope [boom_Fault, Failure (XMLError ''unexpected EOF'')]) caller_action =
       (caller_action, Some (XMLError ''unexpected EOF''))"
proof -
  have d: "Decode unmarshal_FooArgs
             (soap_envelope [boom_Fault, Failure (XMLError ''unexpected EOF'')])
             (new_envelope caller_action) =
     (\<lparr>envelope.XMLName = \<lparr>Space = soap_envelope_ns, Local = ''Envelope''\<rparr>, EncodingStyle = [],
        Body = \<lparr>Fault = Some decoded_Fault, Action = caller_action\<rparr>\<rparr>,
      Some (XMLError ''unexpected EOF''))"
    by (simp add: decode_defs)
  show ?thesis
    using d
      Read_decode_error[of "Decode unmarshal_FooArgs"
        "soap_envelope [boom_Fault, Failure (XMLError ''unexpected EOF'')]" caller_action, OF d]
    by simp
qed

subsection \<open>Faults\<close>

lemma Read_Fault_not_success:
  assumes "envelope_has_Fault doc"
  shows "snd (Read (Decode unmarshal) doc action) \<noteq> None"
proof (cases "Decode unmarshal doc (new_envelope action)")
  case (Pair env err)
  show ?thesis
  proof (cases err)
    case None
    then show ?thesis
      using Pair Decode_Fault[of unmarshal doc "new_envelope action" env] assms
      by (auto simp: Read_def)
  next
    case (Some e)
    then show ?thesis using Pair by (simp add: Read_def)
  qed
qed

text \<open>
  C1: for every stream whose \<open>Body\<close> holds a \<open>Fault\<close> element, \<open>Read\<close> does not report
  success; and whenever such a stream decodes without error, \<open>Read\<close> returns the decoded
  fault as the error, whatever the other children of \<open>Body\<close> have put into the action.
\<close>

theorem Read_Fault_precedence:
  assumes "envelope_has_Fault doc"
  shows "snd (Read (Decode unmarshal) doc action) \<noteq> None \<and>
         (\<forall>env. Decode unmarshal doc (new_envelope action) = (env, None) \<longrightarrow>
            (\<exists>fault. Fault (Body env) = Some fault \<and>
               Read (Decode unmarshal) doc action =
                 (Action (Body env), Some (FaultError fault))))"
proof (intro conjI allI impI)
  show "snd (Read (Decode unmarshal) doc action) \<noteq> None"
    by (rule Read_Fault_not_success[OF assms])
next
  fix env
  assume d: "Decode unmarshal doc (new_envelope action) = (env, None)"
  show "\<exists>fault. Fault (Body env) = Some fault \<and>
          Read (Decode unmarshal) doc action = (Action (Body env), Some (FaultError fault))"
    using Decode_Fault[OF d assms] d by (auto simp: Read_def)
qed

text \<open>
  A \<open>Body\<close> with a fault and a response element: the action is filled in from the
  response, and \<open>Read\<close> returns the fault.
\<close>

theorem Read_Fault_precedence_witness:
  "envelope_has_Fault (soap_envelope [boom_Fault, GetStatusResponse])
   \<and> Decode unmarshal_FooArgs (soap_envelope [boom_Fault, GetStatusResponse])
       (new_envelope caller_action) =
     (\<lparr>envelope.XMLName = \<lparr>Space = soap_envelope_ns, Local = ''Envelope''\<rparr>, EncodingStyle = [],
        Body = \<lparr>Fault = Some decoded_Fault, Action = decoded_action\<rparr>\<rparr>,
      None)
   \<and> Read (Decode unmarshal_FooArgs) (soap_envelope [boom_Fault, GetStatusResponse])
         caller_action =
       (decoded_action, Some (FaultError decoded_Fault))"
proof -
  have h: "envelope_has_Fault (soap_envelope [boom_Fault, GetStatusResponse])"
    by (simp add: decode_defs)
  have d: "Decode unmarshal_FooArgs (soap_envelope [boom_Fault, GetStatusResponse])
       (new_envelope caller_action) =
     (\<lparr>envelope.XMLName = \<lparr>Space = soap_envelope_ns, Local = ''Envelope''\<rparr>, EncodingStyle = [],
        Body = \<lparr>Fault = Some decoded_Fault, Action = decoded_action\<rparr>\<rparr>,
      None)"
    by (simp add: decode_defs)
  show ?thesis
    using h d Read_Fault_precedence[OF h, of unmarshal_FooArgs caller_action] by simp
qed

text \<open>
  C6: \<open>Read\<close> of an envelope whose \<open>Body\<close> holds the fault of the specification returns
  the fault with the code \<open>Server\<close>, the string \<open>boom\<close>, the actor \<open>svc1\<close> and the raw detail
  \<open><x>1</x>\<close>, the bytes between the tags of \<open>detail\<close> as they stand in the stream.
\<close>

theorem Read_boom_Fault:
  \<open>Read (Decode unmarshal) (soap_envelope [boom_Fault]) action =
     (action, Some (FaultError
        \<lparr>Code = ''Server'', String = ''boom'', Actor = ''svc1'',
           Detail = \<lparr>Raw = ''<x>1</x>''\<rparr>\<rparr>))\<close>
  by (simp add: Read_def decode_defs)

subsection \<open>The action element\<close>





subsection \<open>An action with the local name \<open>Fault\<close>\<close>

text \<open>
  \<open>Write\<close> frames an action whose local name is \<open>Fault\<close> as any other. The tag of
  \<open>body.Fault\<close> names no namespace, so the decoder takes the wrapper element for the
  fault, in whatever namespace it is, and \<open>Read\<close> returns an empty fault.
\<close>

lemma Write_action_named_Fault:
  \<open>Write marshal buffer []
      \<lparr>Action.XMLName = \<lparr>Space = ''urn:example'', Local = ''Fault''\<rparr>, Args = None\<rparr> =
     (envOpen @ ''<u:Fault xmlns:u="urn:example"></u:Fault>'' @ envClose, None)\<close>
proof -
  have "escaped ''Fault'' = ''Fault''" by (simp add: escaped_ascii escape_defs)
  then show ?thesis
    by (simp add: Write_buffer marshal_error_def encoded_def escaped_urn_example
        env1_def env2_def env3_def env4_def env5_def)
qed

lemma Read_action_named_Fault:
  "Read (Decode unmarshal)
     (soap_envelope [Element \<lparr>Space = ''urn:example'', Local = ''Fault''\<rparr> [] [] []]) action =
   (action, Some (FaultError zero_Fault))"
  by (simp add: Read_def decode_defs)

end
